theory Spec2Isabelle
  imports Main
begin

section \<open>Python values\<close>

text \<open>
  The values a decoded JSON body can hold. \<open>JNull\<close> is Python's \<open>None\<close>. A finite float
  is kept as the pair (mantissa, exponent); only its truth value (non-zero) is ever used.
  A dict is an association list read with \<open>map_of\<close>.
\<close>

datatype json =
    JNull
  | JBool bool
  | JInt int
  | JFloat int int
  | JStr string
  | JList "json list"
  | JDict "(string \<times> json) list"

text \<open>Python truthiness, as tested by \<open>x or y\<close>.\<close>

fun truthy :: "json \<Rightarrow> bool" where
  "truthy JNull = False"
| "truthy (JBool b) = b"
| "truthy (JInt n) = (n \<noteq> 0)"
| "truthy (JFloat m e) = (m \<noteq> 0)"
| "truthy (JStr s) = (s \<noteq> [])"
| "truthy (JList xs) = (xs \<noteq> [])"
| "truthy (JDict d) = (d \<noteq> [])"

text \<open>\<open>a or b\<close> on integers: \<open>a\<close> when it is non-zero, otherwise \<open>b\<close>.\<close>

definition py_or :: "int \<Rightarrow> int \<Rightarrow> int" where
  "py_or a b = (if a \<noteq> 0 then a else b)"

text \<open>\<open>d.get(key, dflt)\<close>.\<close>

definition dict_get :: "(string \<times> json) list \<Rightarrow> string \<Rightarrow> json \<Rightarrow> json" where
  "dict_get d key dflt = (case map_of d key of None \<Rightarrow> dflt | Some v \<Rightarrow> v)"

text \<open>The fields of \<open>datetime.datetime\<close>; every value is a UTC reading of the clock.\<close>

record datetime =
  year :: int
  month :: int
  day :: int
  hour :: int
  minute :: int
  second :: int
  microsecond :: int

definition is_leap :: "int \<Rightarrow> bool" where
  "is_leap y = (y mod 4 = 0 \<and> (y mod 100 \<noteq> 0 \<or> y mod 400 = 0))"

definition days_in_month :: "int \<Rightarrow> int \<Rightarrow> int" where
  "days_in_month y m =
     (if m = 2 then (if is_leap y then 29 else 28)
      else if m = 4 \<or> m = 6 \<or> m = 9 \<or> m = 11 then 30 else 31)"

text \<open>The ranges Python's \<open>datetime\<close> constructor enforces.\<close>

definition valid_datetime :: "datetime \<Rightarrow> bool" where
  "valid_datetime t =
     (1 \<le> year t \<and> year t \<le> 9999 \<and> 1 \<le> month t \<and> month t \<le> 12 \<and>
      1 \<le> day t \<and> day t \<le> days_in_month (year t) (month t) \<and>
      0 \<le> hour t \<and> hour t \<le> 23 \<and> 0 \<le> minute t \<and> minute t \<le> 59 \<and>
      0 \<le> second t \<and> second t \<le> 59 \<and> 0 \<le> microsecond t \<and> microsecond t \<le> 999999)"

section \<open>Configuration, requests, responses\<close>

text \<open>
  The values \<open>app.py\<close> reads from \<open>os.environ\<close>: \<open>None\<close> is an unset variable. The mail
  server and port already carry their defaults (\<open>smtp.gmail.com\<close>, 587).
\<close>

record config =
  ADMIN_EMAIL :: "string option"
  MAIL_SERVER :: string
  MAIL_PORT :: int
  MAIL_USERNAME :: "string option"
  FRONTEND_URL :: "string option"

text \<open>
  What one request reads from outside the program: the clock at the handler's own
  \<open>datetime.now(timezone.utc)\<close> (lines 86 and 111), the clock at the column default of
  \<open>Visitor.timestamp\<close> (line 43, called when the row is inserted), and whether the
  database or the mail transport raises (\<open>Some e\<close>, with the text of the exception).
\<close>

record io =
  current_time :: datetime
  default_time :: datetime
  db_fault :: "string option"
  mail_fault :: "string option"

text \<open>
  A request. \<open>is_json\<close> is Flask's test of the content type; \<open>json_body\<close> is the decoded
  body, \<open>None\<close> when the body is not valid JSON. \<open>args\<close> is the query string and
  \<open>headers\<close> the request headers, both read by their first match.
\<close>

record request =
  remote_addr :: "string option"
  headers :: "(string \<times> string) list"
  args :: "(string \<times> string) list"
  is_json :: bool
  json_body :: "json option"

datatype exn = BadRequest | AttributeError

text \<open>\<open>request.json\<close>: a body that does not decode raises \<open>BadRequest\<close>.\<close>

definition request_json :: "request \<Rightarrow> exn + json" where
  "request_json req = (case json_body req of None \<Rightarrow> Inl BadRequest | Some j \<Rightarrow> Inr j)"

text \<open>\<open>request.get_json(silent=True)\<close>: \<open>None\<close> instead of any failure.\<close>

definition get_json_silent :: "request \<Rightarrow> json" where
  "get_json_silent req =
     (if is_json req then (case json_body req of None \<Rightarrow> JNull | Some j \<Rightarrow> j) else JNull)"

text \<open>
  \<open>request.args.get(key, default=dflt, type=conv)\<close>: the default when the key is absent
  and when the conversion raises \<open>ValueError\<close> (\<open>conv\<close> returns \<open>None\<close>).
\<close>

definition args_get :: "(string \<times> string) list \<Rightarrow> string \<Rightarrow> int \<Rightarrow> (string \<Rightarrow> int option) \<Rightarrow> int" where
  "args_get a key dflt conv =
     (case map_of a key of
        None \<Rightarrow> dflt
      | Some rv \<Rightarrow> (case conv rv of None \<Rightarrow> dflt | Some n \<Rightarrow> n))"

text \<open>
  A response: the status, the JSON document given to \<open>jsonify\<close> (\<open>None\<close> for an error page
  the framework writes itself), and the headers in the order they were added.
\<close>

record response =
  status :: nat
  payload :: "json option"
  resp_headers :: "(string \<times> string) list"

section \<open>The visitor table and the session\<close>

text \<open>
  A \<open>Visitor\<close> object (lines 39-45). \<open>id_pk\<close> is the column \<open>id\<close>; it and \<open>timestamp\<close> are
  \<open>None\<close> until the row is inserted.
\<close>

record Visitor =
  id_pk :: "nat option"
  ip_address :: "string option"
  user_agent :: "string option"
  timestamp :: "datetime option"
  visit_month :: int
  visit_year :: int

text \<open>The mail built by \<open>notify_click\<close>: the recipients and the values put into the template.\<close>

record Message =
  recipients :: "string option list"
  msg_kind :: json
  msg_page :: json
  msg_ua :: string

text \<open>The lines written to \<open>app.logger\<close>, by their format string and its arguments.\<close>

datatype log_entry =
    ErrTrackingVisit string
  | ErrMonthlyCount string
  | ErrSendingEmail string
  | MailConfig string int bool

text \<open>
  The state the handlers act on: the committed rows of the table, the objects added to
  \<open>db.session\<close> and not yet committed, the mails delivered, and the log.
\<close>

record app_state =
  rows :: "Visitor list"
  pending :: "Visitor list"
  outbox :: "Message list"
  logger :: "log_entry list"

text \<open>The key given to a new row: one more than the largest key in the table.\<close>

definition next_id :: "Visitor list \<Rightarrow> nat" where
  "next_id rs = Suc (fold max (List.map_filter id_pk rs) 0)"

text \<open>
  The INSERTs of a commit, in order. \<open>ip_address\<close> is \<open>nullable=False\<close>: a \<open>None\<close> there
  fails the whole commit. A row gets its key, and the column default fills a timestamp
  that was not given.
\<close>

fun flush :: "datetime \<Rightarrow> Visitor list \<Rightarrow> Visitor list \<Rightarrow> Visitor list option" where
  "flush now [] rs = Some rs"
| "flush now (v # vs) rs =
     (if ip_address v = None then None
      else flush now vs
             (rs @ [v\<lparr>id_pk := Some (next_id rs),
                      timestamp := (case timestamp v of None \<Rightarrow> Some now | Some t \<Rightarrow> Some t)\<rparr>]))"

definition session_add :: "Visitor \<Rightarrow> app_state \<Rightarrow> app_state" where
  "session_add v st = st\<lparr>pending := pending st @ [v]\<rparr>"

text \<open>\<open>db.session.commit()\<close>: \<open>Inl e\<close> is the exception raised; the table is then as before.\<close>

definition session_commit :: "io \<Rightarrow> app_state \<Rightarrow> string + app_state" where
  "session_commit w st =
     (case db_fault w of
        Some e \<Rightarrow> Inl e
      | None \<Rightarrow>
          (case flush (default_time w) (pending st) (rows st) of
             None \<Rightarrow> Inl ''NOT NULL constraint failed: visitor.ip_address''
           | Some rs \<Rightarrow> Inr (st\<lparr>rows := rs, pending := []\<rparr>)))"

definition session_rollback :: "app_state \<Rightarrow> app_state" where
  "session_rollback st = st\<lparr>pending := []\<rparr>"

text \<open>
  \<open>COUNT(DISTINCT ip_address)\<close> over the rows of one month and year (lines 116-118).
\<close>

definition count_distinct_ip :: "Visitor list \<Rightarrow> int \<Rightarrow> int \<Rightarrow> nat" where
  "count_distinct_ip rs m y =
     length (remdups (List.map_filter ip_address
                        (filter (\<lambda>v. visit_month v = m \<and> visit_year v = y) rs)))"

text \<open>
  The query of lines 116-118 binds \<open>month\<close> and \<open>year\<close> as parameters. The database is
  SQLite (the default of line 18), whose driver takes an integer parameter only within
  signed 64 bits and raises \<open>OverflowError\<close> for any other.
\<close>

definition sqlite_int :: "int \<Rightarrow> bool" where
  "sqlite_int n = (- (2 ^ 63) \<le> n \<and> n < 2 ^ 63)"

text \<open>
  The exception the query raises, if any: the fault of the database itself, or the
  driver's refusal of a parameter.
\<close>

definition query_fault :: "io \<Rightarrow> int \<Rightarrow> int \<Rightarrow> string option" where
  "query_fault w m y =
     (case db_fault w of
        Some e \<Rightarrow> Some e
      | None \<Rightarrow>
          (if sqlite_int m \<and> sqlite_int y then None
           else Some ''Python int too large to convert to SQLite INTEGER''))"

section \<open>The handlers\<close>

text \<open>
  What a view function hands back to Flask: an exception that leaves it (\<open>Inl\<close>), or its
  return value (\<open>Inr\<close>), which is \<open>None\<close> when the function ends without \<open>return\<close> and
  otherwise the pair of the JSON document and the status.
\<close>

type_synonym view_result = "exn + (json \<times> nat) option"

text \<open>Line 84: \<open>request.json.get('pageURL') if request.is_json else None\<close>.\<close>

definition page_url_of :: "request \<Rightarrow> exn + json" where
  "page_url_of req =
     (if is_json req then
        (case request_json req of
           Inl e \<Rightarrow> Inl e
         | Inr (JDict d) \<Rightarrow> Inr (dict_get d ''pageURL'' JNull)
         | Inr _ \<Rightarrow> Inl AttributeError)
      else Inr JNull)"

text \<open>
  Lines 91-96: \<open>Visitor(ip_address=..., user_agent=..., visit_month=..., visit_year=...)\<close>.
  Neither \<open>id\<close> nor \<open>timestamp\<close> is given.
\<close>

definition new_Visitor :: "string option \<Rightarrow> string option \<Rightarrow> int \<Rightarrow> int \<Rightarrow> Visitor" where
  "new_Visitor ip ua m y =
     \<lparr>id_pk = None, ip_address = ip, user_agent = ua, timestamp = None,
      visit_month = m, visit_year = y\<rparr>"

text \<open>\<open>track_visit\<close> (lines 80-107). The call of the notification helper is commented out.\<close>

definition track_visit :: "io \<Rightarrow> request \<Rightarrow> app_state \<Rightarrow> view_result \<times> app_state" where
  "track_visit w req st =
     (let ip = remote_addr req;
          ua = map_of (headers req) ''User-Agent''
      in case page_url_of req of
           Inl e \<Rightarrow> (Inl e, st)
         | Inr page_url \<Rightarrow>
             (let now = current_time w;
                  m = month now;
                  y = year now;
                  new_visitor = new_Visitor ip ua m y;
                  st1 = session_add new_visitor st
              in case session_commit w st1 of
                   Inr st2 \<Rightarrow>
                     (Inr (Some (JDict [(''message'', JStr ''Visit tracked successfully'')], 201)), st2)
                 | Inl e \<Rightarrow>
                     (let st2 = session_rollback st1;
                          st3 = st2\<lparr>logger := logger st2 @ [ErrTrackingVisit e]\<rparr>
                      in (Inr (Some (JDict [(''error'', JStr ''Could not track visit'')], 500)), st3))))"

text \<open>
  \<open>get_monthly_visitors\<close> (lines 109-127). \<open>py_int\<close> is Python's \<open>int\<close> on a string,
  \<open>None\<close> where it raises \<open>ValueError\<close>.
\<close>

definition get_monthly_visitors ::
  "(string \<Rightarrow> int option) \<Rightarrow> io \<Rightarrow> request \<Rightarrow> app_state \<Rightarrow> view_result \<times> app_state" where
  "get_monthly_visitors py_int w req st =
     (let now = current_time w;
          m = args_get (args req) ''month'' (month now) py_int;
          y = args_get (args req) ''year'' (year now) py_int
      in case query_fault w m y of
           None \<Rightarrow>
             (let unique_visitor_count = int (count_distinct_ip (rows st) m y)
              in (Inr (Some (JDict [(''month'', JInt m), (''year'', JInt y),
                                    (''unique_visitors'', JInt (py_or (unique_visitor_count + 2) 2))],
                             200)), st))
         | Some e \<Rightarrow>
             (Inr (Some (JDict [(''error'', JStr ''Could not retrieve visitor count'')], 500)),
              st\<lparr>logger := logger st @ [ErrMonthlyCount e]\<rparr>))"

text \<open>\<open>notify_click\<close> (lines 129-151). The function has no \<open>return\<close> statement.\<close>

definition notify_click :: "config \<Rightarrow> io \<Rightarrow> request \<Rightarrow> app_state \<Rightarrow> view_result \<times> app_state" where
  "notify_click cfg w req st =
     (let j = get_json_silent req;
          data = (if truthy j then j else JDict [])
      in case data of
           JDict d \<Rightarrow>
             (let kind = dict_get d ''link_kind'' (JStr ''unknown link'');
                  page = dict_get d ''page'' (JStr ''unknown page'');
                  ua = (case map_of (headers req) ''User-Agent'' of
                          None \<Rightarrow> ''unknown UA'' | Some u \<Rightarrow> u);
                  msg = \<lparr>recipients = [ADMIN_EMAIL cfg], msg_kind = kind,
                         msg_page = page, msg_ua = ua\<rparr>
              in case mail_fault w of
                   None \<Rightarrow> (Inr None, st\<lparr>outbox := outbox st @ [msg]\<rparr>)
                 | Some e \<Rightarrow>
                     (Inr None,
                      st\<lparr>logger := logger st @
                           [ErrSendingEmail e,
                            MailConfig (MAIL_SERVER cfg) (MAIL_PORT cfg) (MAIL_USERNAME cfg \<noteq> None)]\<rparr>))
         | _ \<Rightarrow> (Inl AttributeError, st))"

text \<open>\<open>after_request\<close> (lines 154-161): four headers are added to the response.\<close>

definition after_request :: "config \<Rightarrow> response \<Rightarrow> response" where
  "after_request cfg r =
     (let frontend_url = (case FRONTEND_URL cfg of None \<Rightarrow> ''*'' | Some u \<Rightarrow> u)
      in r\<lparr>resp_headers := resp_headers r @
             [(''Access-Control-Allow-Origin'', frontend_url),
              (''Access-Control-Allow-Headers'', ''Content-Type,Authorization''),
              (''Access-Control-Allow-Methods'', ''GET,PUT,POST,DELETE,OPTIONS''),
              (''Access-Control-Allow-Credentials'', ''true'')]\<rparr>)"

section \<open>The application under Flask\<close>

text \<open>
  Where a request goes: to one of the three view functions (lines 80, 109, 129), or
  nowhere, when Flask answers by itself with the given status (404, 405, the automatic
  OPTIONS reply).
\<close>

datatype endpoint = TrackVisit | MonthlyVisitors | NotifyClick | Unrouted nat

text \<open>
  Flask turns what the view gave into a response: a pair becomes the JSON response with
  its status; \<open>BadRequest\<close> is an HTTP exception and becomes the 400 page; any other
  exception, and a view that returned \<open>None\<close> (\<open>TypeError\<close> in \<open>make_response\<close>), becomes
  the 500 page.
\<close>

definition make_response :: "view_result \<Rightarrow> response" where
  "make_response rv =
     (case rv of
        Inr (Some (doc, code)) \<Rightarrow>
          \<lparr>status = code, payload = Some doc,
           resp_headers = [(''Content-Type'', ''application/json'')]\<rparr>
      | Inr None \<Rightarrow>
          \<lparr>status = 500, payload = None, resp_headers = [(''Content-Type'', ''text/html'')]\<rparr>
      | Inl BadRequest \<Rightarrow>
          \<lparr>status = 400, payload = None, resp_headers = [(''Content-Type'', ''text/html'')]\<rparr>
      | Inl AttributeError \<Rightarrow>
          \<lparr>status = 500, payload = None, resp_headers = [(''Content-Type'', ''text/html'')]\<rparr>)"

text \<open>
  One request through the application: the view runs, its result becomes a response,
  \<open>after_request\<close> is applied to it, and the session is discarded at the end of the
  request.
\<close>

definition wsgi_app ::
  "(string \<Rightarrow> int option) \<Rightarrow> config \<Rightarrow> io \<Rightarrow> endpoint \<Rightarrow> request \<Rightarrow> app_state \<Rightarrow> response \<times> app_state" where
  "wsgi_app py_int cfg w ep req st =
     (case ep of
        Unrouted code \<Rightarrow>
          (after_request cfg
             \<lparr>status = code, payload = None, resp_headers = [(''Content-Type'', ''text/html'')]\<rparr>,
           st\<lparr>pending := []\<rparr>)
      | _ \<Rightarrow>
          (let (rv, st1) =
                 (case ep of
                    TrackVisit \<Rightarrow> track_visit w req st
                  | MonthlyVisitors \<Rightarrow> get_monthly_visitors py_int w req st
                  | _ \<Rightarrow> notify_click cfg w req st)
           in (after_request cfg (make_response rv), st1\<lparr>pending := []\<rparr>)))"

text \<open>
  The states the application can be in: the empty database, and whatever a request
  leaves, the clock giving valid dates.
\<close>

definition init_state :: app_state where
  "init_state = \<lparr>rows = [], pending = [], outbox = [], logger = []\<rparr>"

inductive reachable :: "app_state \<Rightarrow> bool" where
  reachable_init: "reachable init_state"
| reachable_step:
    "reachable st \<Longrightarrow> valid_datetime (current_time w) \<Longrightarrow> valid_datetime (default_time w) \<Longrightarrow>
     reachable (snd (wsgi_app py_int cfg w ep req st))"

text \<open>
  A converter for the examples: plain decimal numerals with an optional minus sign, on
  which Python's \<open>int\<close> gives the same value.
\<close>

definition digit_val :: "char \<Rightarrow> nat option" where
  "digit_val c =
     (let n = (of_char c :: nat)
      in if 48 \<le> n \<and> n \<le> 57 then Some (n - 48) else None)"

fun digits_val :: "nat \<Rightarrow> string \<Rightarrow> nat option" where
  "digits_val acc [] = Some acc"
| "digits_val acc (c # cs) =
     (case digit_val c of None \<Rightarrow> None | Some d \<Rightarrow> digits_val (10 * acc + d) cs)"

definition decimal_int :: "string \<Rightarrow> int option" where
  "decimal_int s =
     (case s of
        [] \<Rightarrow> None
      | c # cs \<Rightarrow>
          (if c = CHR ''-'' then
             (if cs = [] then None else map_option (\<lambda>n. - int n) (digits_val 0 cs))
           else map_option int (digits_val 0 s)))"

section \<open>Example inputs\<close>

definition ex_cfg :: config where
  "ex_cfg = \<lparr>ADMIN_EMAIL = Some ''admin@example.com'', MAIL_SERVER = ''smtp.gmail.com'',
             MAIL_PORT = 587, MAIL_USERNAME = Some ''me@gmail.com'', FRONTEND_URL = None\<rparr>"

definition t_may17 :: datetime where
  "t_may17 = \<lparr>year = 2024, month = 5, day = 17, hour = 10, minute = 30, second = 0,
              microsecond = 250\<rparr>"

definition t_jan31 :: datetime where
  "t_jan31 = \<lparr>year = 2024, month = 1, day = 31, hour = 23, minute = 59, second = 59,
              microsecond = 999999\<rparr>"

definition t_feb01 :: datetime where
  "t_feb01 = \<lparr>year = 2024, month = 2, day = 1, hour = 0, minute = 0, second = 0,
              microsecond = 1\<rparr>"

definition t_dec31 :: datetime where
  "t_dec31 = \<lparr>year = 2023, month = 12, day = 31, hour = 23, minute = 59, second = 59,
              microsecond = 999998\<rparr>"

definition t_jan01 :: datetime where
  "t_jan01 = \<lparr>year = 2024, month = 1, day = 1, hour = 0, minute = 0, second = 0,
              microsecond = 3\<rparr>"

text \<open>Nothing fails, and both readings of the clock are in May 2024.\<close>

definition ok_io :: io where
  "ok_io = \<lparr>current_time = t_may17, default_time = t_may17\<lparr>microsecond := 900\<rparr>,
            db_fault = None, mail_fault = None\<rparr>"

text \<open>The handler reads the clock just before midnight, the insert just after.\<close>

definition midnight_io :: io where
  "midnight_io = \<lparr>current_time = t_jan31, default_time = t_feb01,
                  db_fault = None, mail_fault = None\<rparr>"

text \<open>The same across the turn of the year.\<close>

definition new_year_io :: io where
  "new_year_io = \<lparr>current_time = t_dec31, default_time = t_jan01,
                  db_fault = None, mail_fault = None\<rparr>"

definition db_down_io :: io where
  "db_down_io = ok_io\<lparr>db_fault := Some ''connection refused''\<rparr>"

definition mail_down_io :: io where
  "mail_down_io = ok_io\<lparr>mail_fault := Some ''SMTP timeout''\<rparr>"

definition visit_req :: request where
  "visit_req = \<lparr>remote_addr = Some ''203.0.113.7'',
                headers = [(''User-Agent'', ''Mozilla/5.0'')], args = [],
                is_json = True, json_body = Some (JDict [(''pageURL'', JStr ''/home'')])\<rparr>"

definition bad_json_req :: request where
  "bad_json_req = visit_req\<lparr>json_body := None\<rparr>"

definition empty_click_req :: request where
  "empty_click_req = visit_req\<lparr>json_body := Some (JDict [])\<rparr>"

definition row_of :: "nat \<Rightarrow> string \<Rightarrow> int \<Rightarrow> int \<Rightarrow> Visitor" where
  "row_of k ip m y =
     \<lparr>id_pk = Some k, ip_address = Some ip, user_agent = None,
      timestamp = Some (t_may17\<lparr>month := m, year := y\<rparr>), visit_month = m, visit_year = y\<rparr>"

text \<open>Three visits in May 2024 from two addresses, and one in April.\<close>

definition ex_state :: app_state where
  "ex_state = \<lparr>rows = [row_of 1 ''203.0.113.7'' 5 2024, row_of 2 ''198.51.100.2'' 5 2024,
                       row_of 3 ''203.0.113.7'' 5 2024, row_of 4 ''192.0.2.9'' 4 2024],
               pending = [], outbox = [], logger = []\<rparr>"

definition may_req :: request where
  "may_req = visit_req\<lparr>args := [(''month'', ''5''), (''year'', ''2024'')]\<rparr>"

definition month13_req :: request where
  "month13_req = visit_req\<lparr>args := [(''month'', ''13'')]\<rparr>"

text \<open>The month is 2 to the power 63.\<close>

definition huge_month_req :: request where
  "huge_month_req = visit_req\<lparr>args := [(''month'', ''9223372036854775808'')]\<rparr>"

definition no_args_req :: request where
  "no_args_req = visit_req\<lparr>args := []\<rparr>"

definition bad_month_req :: request where
  "bad_month_req = visit_req\<lparr>args := [(''month'', ''abc''), (''year'', ''2024'')]\<rparr>"

text \<open>The database after one recorded visit.\<close>

definition one_visit_state :: app_state where
  "one_visit_state = snd (wsgi_app decimal_int ex_cfg ok_io TrackVisit visit_req init_state)"

section \<open>The invariant of the table\<close>

text \<open>No request leaves an object in the session, and every row's month is a calendar month.\<close>

definition months_ok :: "app_state \<Rightarrow> bool" where
  "months_ok st =
     (pending st = [] \<and> list_all (\<lambda>v. 1 \<le> visit_month v \<and> visit_month v \<le> 12) (rows st))"

section \<open>Facts about the table\<close>

lemmas ex_defs =
  ex_cfg_def t_may17_def t_jan31_def t_feb01_def t_dec31_def t_jan01_def ok_io_def
  midnight_io_def new_year_io_def db_down_io_def mail_down_io_def visit_req_def
  bad_json_req_def empty_click_req_def row_of_def ex_state_def may_req_def month13_req_def
  huge_month_req_def no_args_req_def bad_month_req_def init_state_def

lemmas run_defs =
  track_visit_def get_monthly_visitors_def notify_click_def wsgi_app_def make_response_def
  after_request_def page_url_of_def request_json_def get_json_silent_def args_get_def
  dict_get_def py_or_def new_Visitor_def session_add_def session_commit_def
  session_rollback_def next_id_def count_distinct_ip_def List.map_filter_def
  sqlite_int_def query_fault_def decimal_int_def digit_val_def Let_def

lemma count_distinct_ip_card:
  "count_distinct_ip rs m y =
     card {a. \<exists>v \<in> set rs. visit_month v = m \<and> visit_year v = y \<and> ip_address v = Some a}"
proof -
  let ?sel = "filter (\<lambda>v. visit_month v = m \<and> visit_year v = y) rs"
  have "set (List.map_filter ip_address ?sel) =
        {a. \<exists>v \<in> set rs. visit_month v = m \<and> visit_year v = y \<and> ip_address v = Some a}"
    by (auto simp: List.map_filter_def intro: rev_image_eqI)
  then show ?thesis
    by (simp add: count_distinct_ip_def length_remdups_card_conv)
qed

lemma count_distinct_ip_none:
  "list_all (\<lambda>v. visit_month v \<noteq> m) rs \<Longrightarrow> count_distinct_ip rs m y = 0"
  by (simp add: count_distinct_ip_def List.map_filter_def list_all_iff filter_empty_conv)

lemma py_or_offset: "py_or (int c + 2) 2 = int c + 2"
  by (simp add: py_or_def)

text \<open>Every key in the table is below the next key.\<close>

lemma next_id_fresh: "v \<in> set rs \<Longrightarrow> id_pk v = Some k \<Longrightarrow> k < next_id rs"
proof -
  have le: "\<And>a. k \<in> set xs \<Longrightarrow> k \<le> fold max xs a" for xs :: "nat list"
  proof (induction xs)
    case Nil then show ?case by simp
  next
    case (Cons x xs)
    have mono: "\<And>a. a \<le> fold max xs a"
      by (induction xs) (auto intro: order_trans[OF max.cobounded2])
    show ?case using Cons mono[of "max x a"] by auto
  qed
  assume "v \<in> set rs" "id_pk v = Some k"
  then have "k \<in> set (List.map_filter id_pk rs)"
    by (force simp: List.map_filter_def)
  then show ?thesis using le by (simp add: next_id_def less_Suc_eq_le)
qed

section \<open>Facts about the handlers\<close>

text \<open>What a 201 from \<open>track_visit\<close> means, the session being empty at the start.\<close>

lemma track_visit_success:
  assumes "pending st = []" and "fst (track_visit w req st) = Inr (Some (doc, 201))"
  shows "snd (track_visit w req st) =
           st\<lparr>rows := rows st @
                 [\<lparr>id_pk = Some (next_id (rows st)), ip_address = remote_addr req,
                   user_agent = map_of (headers req) ''User-Agent'',
                   timestamp = Some (default_time w),
                   visit_month = month (current_time w),
                   visit_year = year (current_time w)\<rparr>], pending := []\<rparr>"
    and "remote_addr req \<noteq> None" and "db_fault w = None"
    and "doc = JDict [(''message'', JStr ''Visit tracked successfully'')]"
    and "\<exists>p. page_url_of req = Inr p"
  using assms
  by (auto simp: track_visit_def Let_def session_add_def session_commit_def session_rollback_def
                 new_Visitor_def
           split: sum.splits option.splits if_splits)

lemma track_visit_succeeds:
  assumes "pending st = []" and "remote_addr req \<noteq> None" and "db_fault w = None"
    and "page_url_of req = Inr p"
  shows "fst (track_visit w req st) =
           Inr (Some (JDict [(''message'', JStr ''Visit tracked successfully'')], 201))"
  using assms
  by (auto simp: track_visit_def Let_def session_add_def session_commit_def new_Visitor_def
           split: sum.splits option.splits)

lemma track_visit_rows:
  assumes "pending st = []"
  shows "rows (snd (track_visit w req st)) = rows st \<or>
         (\<exists>v. rows (snd (track_visit w req st)) = rows st @ [v] \<and>
              visit_month v = month (current_time w))"
  using assms
  by (auto simp: track_visit_def Let_def session_add_def session_commit_def session_rollback_def
                 new_Visitor_def
           split: sum.splits option.splits if_splits)

lemma track_visit_outbox: "outbox (snd (track_visit w req st)) = outbox st"
  by (simp add: track_visit_def Let_def session_add_def session_commit_def session_rollback_def
           split: sum.splits option.splits)

lemma session_commit_db_fault: "db_fault w = Some e \<Longrightarrow> session_commit w st = Inl e"
  by (simp add: session_commit_def)

lemma query_fault_none:
  "db_fault w = None \<Longrightarrow> sqlite_int m \<Longrightarrow> sqlite_int y \<Longrightarrow> query_fault w m y = None"
  by (simp add: query_fault_def)

lemma query_fault_overflow:
  "db_fault w = None \<Longrightarrow> \<not> (sqlite_int m \<and> sqlite_int y) \<Longrightarrow>
   query_fault w m y = Some ''Python int too large to convert to SQLite INTEGER''"
  by (simp add: query_fault_def)

lemma valid_datetime_sqlite_int:
  "valid_datetime t \<Longrightarrow> sqlite_int (month t) \<and> sqlite_int (year t)"
  by (simp add: valid_datetime_def sqlite_int_def)

lemma get_monthly_visitors_ok:
  "query_fault w (args_get (args req) ''month'' (month (current_time w)) py_int)
                 (args_get (args req) ''year'' (year (current_time w)) py_int) = None \<Longrightarrow>
   get_monthly_visitors py_int w req st =
     (Inr (Some (JDict
        [(''month'', JInt (args_get (args req) ''month'' (month (current_time w)) py_int)),
         (''year'', JInt (args_get (args req) ''year'' (year (current_time w)) py_int)),
         (''unique_visitors'',
          JInt (int (count_distinct_ip (rows st)
                       (args_get (args req) ''month'' (month (current_time w)) py_int)
                       (args_get (args req) ''year'' (year (current_time w)) py_int)) + 2))],
        200)), st)"
  by (simp add: get_monthly_visitors_def Let_def py_or_offset)

lemma get_monthly_visitors_fails:
  "query_fault w (args_get (args req) ''month'' (month (current_time w)) py_int)
                 (args_get (args req) ''year'' (year (current_time w)) py_int) = Some e \<Longrightarrow>
   get_monthly_visitors py_int w req st =
     (Inr (Some (JDict [(''error'', JStr ''Could not retrieve visitor count'')], 500)),
      st\<lparr>logger := logger st @ [ErrMonthlyCount e]\<rparr>)"
  by (simp add: get_monthly_visitors_def Let_def)

lemma args_get_fallback:
  "map_of a key = None \<or> (\<exists>s. map_of a key = Some s \<and> conv s = None) \<Longrightarrow>
   args_get a key dflt conv = dflt"
  by (auto simp: args_get_def)

lemma get_monthly_visitors_rows: "rows (snd (get_monthly_visitors py_int w req st)) = rows st"
  by (simp add: get_monthly_visitors_def Let_def split: option.splits)

lemma notify_click_rows: "rows (snd (notify_click cfg w req st)) = rows st"
  by (simp add: notify_click_def Let_def split: option.splits json.splits)

text \<open>\<open>notify_click\<close> never returns a response, and Flask answers 500 for it.\<close>

lemma notify_click_never_responds: "fst (notify_click cfg w req st) \<noteq> Inr (Some r)"
  by (simp add: notify_click_def Let_def split: json.splits option.splits)

lemma notify_click_status: "status (fst (wsgi_app py_int cfg w NotifyClick req st)) = 500"
proof -
  have "fst (notify_click cfg w req st) = Inr None \<or>
        fst (notify_click cfg w req st) = Inl AttributeError"
    by (simp add: notify_click_def Let_def split: json.splits option.splits)
  then show ?thesis
    by (auto simp: wsgi_app_def split_beta make_response_def after_request_def Let_def)
qed

lemma wsgi_app_rows:
  "rows (snd (wsgi_app py_int cfg w ep req st)) =
     (case ep of TrackVisit \<Rightarrow> rows (snd (track_visit w req st)) | _ \<Rightarrow> rows st)"
  by (cases ep)
     (simp_all add: wsgi_app_def split_beta get_monthly_visitors_rows notify_click_rows)

lemma wsgi_app_pending: "pending (snd (wsgi_app py_int cfg w ep req st)) = []"
  by (cases ep) (simp_all add: wsgi_app_def split_beta)

lemma after_request_headers:
  "set (resp_headers (after_request cfg r)) \<supseteq>
     {(''Access-Control-Allow-Origin'', case FRONTEND_URL cfg of None \<Rightarrow> ''*'' | Some u \<Rightarrow> u),
      (''Access-Control-Allow-Headers'', ''Content-Type,Authorization''),
      (''Access-Control-Allow-Methods'', ''GET,PUT,POST,DELETE,OPTIONS''),
      (''Access-Control-Allow-Credentials'', ''true'')}"
  by (simp add: after_request_def Let_def)

lemma wsgi_app_after_request:
  "\<exists>r. fst (wsgi_app py_int cfg w ep req st) = after_request cfg r"
  by (cases ep) (auto simp: wsgi_app_def split_beta)

text \<open>The invariant holds in every state the application reaches.\<close>

lemma reachable_months_ok: "reachable st \<Longrightarrow> months_ok st"
proof (induction rule: reachable.induct)
  case reachable_init
  then show ?case by (simp add: months_ok_def init_state_def)
next
  case (reachable_step st w py_int cfg ep req)
  have pend: "pending st = []" using reachable_step.IH by (simp add: months_ok_def)
  have m: "1 \<le> month (current_time w) \<and> month (current_time w) \<le> 12"
    using reachable_step.hyps(2) by (simp add: valid_datetime_def)
  have "list_all (\<lambda>v. 1 \<le> visit_month v \<and> visit_month v \<le> 12)
          (rows (snd (wsgi_app py_int cfg w ep req st)))"
  proof (cases ep)
    case TrackVisit
    then show ?thesis
      using track_visit_rows[OF pend, of w req] reachable_step.IH m
      by (auto simp: wsgi_app_rows months_ok_def)
  qed (use reachable_step.IH in \<open>simp_all add: wsgi_app_rows months_ok_def\<close>)
  then show ?case by (simp add: months_ok_def wsgi_app_pending)
qed

lemma reachable_one_visit: "reachable one_visit_state"
  unfolding one_visit_state_def
  by (rule reachable_step[OF reachable_init])
     (simp_all add: valid_datetime_def days_in_month_def is_leap_def ex_defs)

text \<open>
  A 201 from \<open>track_visit\<close>: one row is appended, under a key no other row has, with the
  period of the handler's clock reading; the same call made again answers 201 again and
  appends a second row, equal to the first but for its key.
\<close>

lemma track_visit_twice:
  assumes "pending st = []"
    and "track_visit w req st = (Inr (Some (doc, 201)), st1)"
  shows "\<exists>v1 v2.
           rows st1 = rows st @ [v1] \<and>
           visit_month v1 = month (current_time w) \<and>
           visit_year v1 = year (current_time w) \<and>
           (\<forall>r \<in> set (rows st). id_pk r \<noteq> id_pk v1) \<and>
           fst (track_visit w req st1) = Inr (Some (doc, 201)) \<and>
           rows (snd (track_visit w req st1)) = rows st @ [v1, v2] \<and>
           id_pk v1 \<noteq> id_pk v2 \<and>
           v2 = v1\<lparr>id_pk := id_pk v2\<rparr>"
proof -
  let ?v = "\<lambda>k. \<lparr>id_pk = Some k, ip_address = remote_addr req,
                   user_agent = map_of (headers req) ''User-Agent'',
                   timestamp = Some (default_time w),
                   visit_month = month (current_time w),
                   visit_year = year (current_time w)\<rparr>"
  have ok: "fst (track_visit w req st) = Inr (Some (doc, 201))"
    using assms(2) by simp
  have st1: "st1 = st\<lparr>rows := rows st @ [?v (next_id (rows st))], pending := []\<rparr>"
    using track_visit_success(1)[OF assms(1) ok] assms(2) by simp
  obtain p where p: "page_url_of req = Inr p"
    using track_visit_success(5)[OF assms(1) ok] by blast
  have doc: "doc = JDict [(''message'', JStr ''Visit tracked successfully'')]"
    by (rule track_visit_success(4)[OF assms(1) ok])
  have pend1: "pending st1 = []"
    by (simp add: st1)
  have ok2: "fst (track_visit w req st1) = Inr (Some (doc, 201))"
    unfolding doc
    by (rule track_visit_succeeds[OF pend1 track_visit_success(2)[OF assms(1) ok]
                                     track_visit_success(3)[OF assms(1) ok] p])
  have rows2: "rows (snd (track_visit w req st1)) =
                 rows st @ [?v (next_id (rows st)), ?v (next_id (rows st1))]"
    using track_visit_success(1)[OF pend1 ok2] by (simp add: st1)
  have "next_id (rows st) < next_id (rows st1)"
    by (rule next_id_fresh[of "?v (next_id (rows st))"]) (simp_all add: st1)
  then have neq: "id_pk (?v (next_id (rows st))) \<noteq> id_pk (?v (next_id (rows st1)))"
    by simp
  have fresh: "\<forall>r \<in> set (rows st). id_pk r \<noteq> id_pk (?v (next_id (rows st)))"
  proof
    fix r assume r: "r \<in> set (rows st)"
    show "id_pk r \<noteq> id_pk (?v (next_id (rows st)))"
    proof (cases "id_pk r")
      case None
      then show ?thesis by simp
    next
      case (Some k)
      then show ?thesis using next_id_fresh[OF r Some] by simp
    qed
  qed
  show ?thesis
    apply (rule exI[of _ "?v (next_id (rows st))"])
    apply (rule exI[of _ "?v (next_id (rows st1))"])
    using ok2 rows2 neq fresh by (simp add: st1)
qed

section \<open>Properties of the specification, checked on the code\<close>

text \<open>
  C1. A successful monthly-visitors response carries, as \<open>unique_visitors\<close>, the number of
  distinct addresses among the rows of the queried month and year, plus 2. The count is
  never negative, so \<open>count + 2 or 2\<close> is always \<open>count + 2\<close>, and it is 2 for a count
  of 0.
\<close>

theorem monthly_visitors_count_plus_two:
  assumes "fst (get_monthly_visitors py_int w req st) = Inr (Some (doc, 200))"
  shows "doc = JDict
           [(''month'', JInt (args_get (args req) ''month'' (month (current_time w)) py_int)),
            (''year'', JInt (args_get (args req) ''year'' (year (current_time w)) py_int)),
            (''unique_visitors'',
             JInt (int (card {a. \<exists>v \<in> set (rows st).
                          visit_month v = args_get (args req) ''month'' (month (current_time w)) py_int \<and>
                          visit_year v = args_get (args req) ''year'' (year (current_time w)) py_int \<and>
                          ip_address v = Some a}) + 2))]
         \<and> (\<forall>c::nat. py_or (int c + 2) 2 = int c + 2)
         \<and> py_or (int 0 + 2) 2 = 2"
  using assms
  by (auto simp: get_monthly_visitors_def Let_def py_or_offset py_or_def count_distinct_ip_card
           split: option.splits)

text \<open>Three visits in May 2024 from two addresses are reported as 4.\<close>

theorem monthly_visitors_count_plus_two_witness:
  "fst (get_monthly_visitors decimal_int ok_io may_req ex_state) =
     Inr (Some (JDict [(''month'', JInt 5), (''year'', JInt 2024),
                       (''unique_visitors'', JInt 4)], 200)) \<and>
   int (card {a. \<exists>v \<in> set (rows ex_state).
                visit_month v = 5 \<and> visit_year v = 2024 \<and> ip_address v = Some a}) + 2 = 4"
proof -
  have h: "fst (get_monthly_visitors decimal_int ok_io may_req ex_state) =
     Inr (Some (JDict [(''month'', JInt 5), (''year'', JInt 2024),
                       (''unique_visitors'', JInt 4)], 200))"
    by (simp add: run_defs ex_defs)
  have a: "args_get (args may_req) ''month'' (month (current_time ok_io)) decimal_int = 5"
          "args_get (args may_req) ''year'' (year (current_time ok_io)) decimal_int = 2024"
    by (simp_all add: run_defs ex_defs)
  show ?thesis
    using h monthly_visitors_count_plus_two[OF h] unfolding a by simp
qed

text \<open>
  C2. The click notification is said to answer with a success status whether or not the
  mail is delivered. Run on an empty JSON object, \<open>notify_click\<close> ends without a
  \<open>return\<close> statement, with the mail delivered and with the delivery failing alike: the
  view's value is \<open>None\<close>, and the response Flask makes of it has status 500.
\<close>

theorem notify_click_returns_nothing:
  "fst (notify_click ex_cfg ok_io empty_click_req init_state) = Inr None \<and>
   status (fst (wsgi_app decimal_int ex_cfg ok_io NotifyClick empty_click_req init_state)) = 500 \<and>
   fst (notify_click ex_cfg mail_down_io empty_click_req init_state) = Inr None \<and>
   status (fst (wsgi_app decimal_int ex_cfg mail_down_io NotifyClick empty_click_req init_state)) = 500"
  by (simp add: run_defs ex_defs)

text \<open>
  C3. The period fields are said to be the month and year of the timestamp stored in the
  same row. The handler reads the clock at line 86 and the column default reads it again
  when the row is inserted: with the first reading at 2024-01-31 23:59:59.999999 and the
  second at 2024-02-01 00:00:00.000001 the row stored has \<open>visit_month = 1\<close> and a
  timestamp in month 2.
\<close>

theorem track_visit_period_not_from_timestamp:
  "valid_datetime (current_time midnight_io) \<and> valid_datetime (default_time midnight_io) \<and>
   track_visit midnight_io visit_req init_state =
     (Inr (Some (JDict [(''message'', JStr ''Visit tracked successfully'')], 201)),
      init_state\<lparr>rows :=
        [\<lparr>id_pk = Some 1, ip_address = Some ''203.0.113.7'', user_agent = Some ''Mozilla/5.0'',
          timestamp = Some t_feb01, visit_month = 1, visit_year = 2024\<rparr>]\<rparr>) \<and>
   month t_feb01 = 2"
  by (simp add: run_defs ex_defs valid_datetime_def days_in_month_def is_leap_def)

text \<open>
  C4. A 201 from \<open>track_visit\<close> is said to mean exactly one new row whose \<open>visit_month\<close>
  and \<open>visit_year\<close> are the month and year of the recording instant. One row it is, and a
  repeated call adds its own. The period however is that of the handler's clock reading
  at line 86, not of the instant recorded in the row: with the handler reading the clock
  at 2023-12-31 23:59:59.999998 and the insert at 2024-01-01 00:00:00.000003, the call
  answers 201 and the one row appended has \<open>visit_month = 12\<close> and \<open>visit_year = 2023\<close>
  beside a timestamp in January 2024.
\<close>

theorem track_visit_period_not_of_recorded_instant:
  "valid_datetime (current_time new_year_io) \<and> valid_datetime (default_time new_year_io) \<and>
   pending ex_state = [] \<and>
   track_visit new_year_io visit_req ex_state =
     (Inr (Some (JDict [(''message'', JStr ''Visit tracked successfully'')], 201)),
      ex_state\<lparr>rows := rows ex_state @
        [\<lparr>id_pk = Some 5, ip_address = Some ''203.0.113.7'', user_agent = Some ''Mozilla/5.0'',
          timestamp = Some t_jan01, visit_month = 12, visit_year = 2023\<rparr>]\<rparr>) \<and>
   month t_jan01 = 1 \<and> year t_jan01 = 2024"
  by (simp add: run_defs ex_defs valid_datetime_def days_in_month_def is_leap_def)

text \<open>
  C5. When the \<open>month\<close> parameter is absent or \<open>int\<close> rejects it, the query runs with the
  month of the server's clock, and likewise the \<open>year\<close> parameter with the clock's year;
  nothing is raised for it. The database answering and the other parameter being one the
  driver takes, the response is the 200 response for that period; with both parameters
  absent or rejected it is the 200 response for the clock's month and year.
\<close>

theorem monthly_visitors_default_period:
  assumes "db_fault w = None" and "valid_datetime (current_time w)"
  shows "(map_of (args req) ''month'' = None \<or>
            (\<exists>s. map_of (args req) ''month'' = Some s \<and> py_int s = None) \<longrightarrow>
          sqlite_int (args_get (args req) ''year'' (year (current_time w)) py_int) \<longrightarrow>
          fst (get_monthly_visitors py_int w req st) =
             Inr (Some (JDict
               [(''month'', JInt (month (current_time w))),
                (''year'', JInt (args_get (args req) ''year'' (year (current_time w)) py_int)),
                (''unique_visitors'',
                 JInt (int (count_distinct_ip (rows st) (month (current_time w))
                              (args_get (args req) ''year'' (year (current_time w)) py_int)) + 2))],
               200))) \<and>
         (map_of (args req) ''year'' = None \<or>
            (\<exists>s. map_of (args req) ''year'' = Some s \<and> py_int s = None) \<longrightarrow>
          sqlite_int (args_get (args req) ''month'' (month (current_time w)) py_int) \<longrightarrow>
          fst (get_monthly_visitors py_int w req st) =
             Inr (Some (JDict
               [(''month'', JInt (args_get (args req) ''month'' (month (current_time w)) py_int)),
                (''year'', JInt (year (current_time w))),
                (''unique_visitors'',
                 JInt (int (count_distinct_ip (rows st)
                              (args_get (args req) ''month'' (month (current_time w)) py_int)
                              (year (current_time w))) + 2))],
               200))) \<and>
         (map_of (args req) ''month'' = None \<or>
            (\<exists>s. map_of (args req) ''month'' = Some s \<and> py_int s = None) \<longrightarrow>
          map_of (args req) ''year'' = None \<or>
            (\<exists>s. map_of (args req) ''year'' = Some s \<and> py_int s = None) \<longrightarrow>
          fst (get_monthly_visitors py_int w req st) =
             Inr (Some (JDict
               [(''month'', JInt (month (current_time w))),
                (''year'', JInt (year (current_time w))),
                (''unique_visitors'',
                 JInt (int (count_distinct_ip (rows st) (month (current_time w))
                              (year (current_time w))) + 2))],
               200)))"
proof -
  let ?M = "args_get (args req) ''month'' (month (current_time w)) py_int"
  let ?Y = "args_get (args req) ''year'' (year (current_time w)) py_int"
  let ?mbad = "map_of (args req) ''month'' = None \<or>
                 (\<exists>s. map_of (args req) ''month'' = Some s \<and> py_int s = None)"
  let ?ybad = "map_of (args req) ''year'' = None \<or>
                 (\<exists>s. map_of (args req) ''year'' = Some s \<and> py_int s = None)"
  have clock: "sqlite_int (month (current_time w))" "sqlite_int (year (current_time w))"
    using valid_datetime_sqlite_int[OF assms(2)] by simp_all
  have run: "sqlite_int ?M \<Longrightarrow> sqlite_int ?Y \<Longrightarrow>
             fst (get_monthly_visitors py_int w req st) =
               Inr (Some (JDict
                 [(''month'', JInt ?M), (''year'', JInt ?Y),
                  (''unique_visitors'', JInt (int (count_distinct_ip (rows st) ?M ?Y) + 2))],
                 200))"
    using get_monthly_visitors_ok[of w req py_int st] query_fault_none[OF assms(1), of ?M ?Y]
    by simp
  have m: "?M = month (current_time w)" if ?mbad
    using that by (rule args_get_fallback)
  have y: "?Y = year (current_time w)" if ?ybad
    using that by (rule args_get_fallback)
  show ?thesis
  proof (intro conjI impI)
    assume b: ?mbad and r: "sqlite_int ?Y"
    show "fst (get_monthly_visitors py_int w req st) =
             Inr (Some (JDict
               [(''month'', JInt (month (current_time w))), (''year'', JInt ?Y),
                (''unique_visitors'',
                 JInt (int (count_distinct_ip (rows st) (month (current_time w)) ?Y) + 2))],
               200))"
      using run r clock(1) by (simp add: m[OF b])
  next
    assume b: ?ybad and r: "sqlite_int ?M"
    show "fst (get_monthly_visitors py_int w req st) =
             Inr (Some (JDict
               [(''month'', JInt ?M), (''year'', JInt (year (current_time w))),
                (''unique_visitors'',
                 JInt (int (count_distinct_ip (rows st) ?M (year (current_time w))) + 2))],
               200))"
      using run r clock(2) by (simp add: y[OF b])
  next
    assume b: ?mbad and c: ?ybad
    show "fst (get_monthly_visitors py_int w req st) =
             Inr (Some (JDict
               [(''month'', JInt (month (current_time w))),
                (''year'', JInt (year (current_time w))),
                (''unique_visitors'',
                 JInt (int (count_distinct_ip (rows st) (month (current_time w))
                              (year (current_time w))) + 2))],
               200))"
      using run clock by (simp add: m[OF b] y[OF c])
  qed
qed

text \<open>A month of \<open>abc\<close>, an absent year, and no parameter at all, in May 2024.\<close>

theorem monthly_visitors_default_period_witness:
  "db_fault ok_io = None \<and> valid_datetime (current_time ok_io) \<and>
   map_of (args bad_month_req) ''month'' = Some ''abc'' \<and> decimal_int ''abc'' = None \<and>
   map_of (args month13_req) ''year'' = None \<and>
   map_of (args no_args_req) ''month'' = None \<and> map_of (args no_args_req) ''year'' = None \<and>
   fst (get_monthly_visitors decimal_int ok_io bad_month_req ex_state) =
      Inr (Some (JDict [(''month'', JInt 5), (''year'', JInt 2024),
                        (''unique_visitors'', JInt 4)], 200)) \<and>
   fst (get_monthly_visitors decimal_int ok_io month13_req ex_state) =
      Inr (Some (JDict [(''month'', JInt 13), (''year'', JInt 2024),
                        (''unique_visitors'', JInt 2)], 200)) \<and>
   fst (get_monthly_visitors decimal_int ok_io no_args_req ex_state) =
      Inr (Some (JDict [(''month'', JInt 5), (''year'', JInt 2024),
                        (''unique_visitors'', JInt 4)], 200))"
proof -
  have d: "db_fault ok_io = None" by (simp add: ex_defs)
  have v: "valid_datetime (current_time ok_io)"
    by (simp add: ex_defs valid_datetime_def days_in_month_def is_leap_def)
  have m: "map_of (args bad_month_req) ''month'' = Some ''abc''" "decimal_int ''abc'' = None"
    by (simp_all add: ex_defs decimal_int_def digit_val_def)
  have y: "map_of (args month13_req) ''year'' = None" by (simp add: ex_defs)
  have n: "map_of (args no_args_req) ''month'' = None" "map_of (args no_args_req) ''year'' = None"
    by (simp_all add: ex_defs)
  have c: "month (current_time ok_io) = 5" "year (current_time ok_io) = 2024"
    by (simp_all add: ex_defs)
  have a: "args_get (args bad_month_req) ''year'' 2024 decimal_int = 2024"
          "args_get (args month13_req) ''month'' 5 decimal_int = 13"
    by (simp_all add: args_get_def decimal_int_def digit_val_def ex_defs)
  have k: "count_distinct_ip (rows ex_state) 5 2024 = 2"
          "count_distinct_ip (rows ex_state) 13 2024 = 0"
    by (simp_all add: count_distinct_ip_def List.map_filter_def ex_defs)
  have r: "sqlite_int 2024" "sqlite_int 13" by (simp_all add: sqlite_int_def)
  have t1: "fst (get_monthly_visitors decimal_int ok_io bad_month_req ex_state) =
      Inr (Some (JDict [(''month'', JInt 5), (''year'', JInt 2024),
                        (''unique_visitors'', JInt 4)], 200))"
    using monthly_visitors_default_period[OF d v, of bad_month_req decimal_int ex_state] m r
    unfolding c a k by simp
  have t2: "fst (get_monthly_visitors decimal_int ok_io month13_req ex_state) =
      Inr (Some (JDict [(''month'', JInt 13), (''year'', JInt 2024),
                        (''unique_visitors'', JInt 2)], 200))"
    using monthly_visitors_default_period[OF d v, of month13_req decimal_int ex_state] y r
    unfolding c a k by simp
  have t3: "fst (get_monthly_visitors decimal_int ok_io no_args_req ex_state) =
      Inr (Some (JDict [(''month'', JInt 5), (''year'', JInt 2024),
                        (''unique_visitors'', JInt 4)], 200))"
    using monthly_visitors_default_period[OF d v, of no_args_req decimal_int ex_state] n
    unfolding c k by simp
  show ?thesis
    using d v m y n t1 t2 t3 by simp
qed

text \<open>
  C6. When the commit of the new row raises, \<open>track_visit\<close> answers 500 with the fixed
  body \<open>{"error": "Could not track visit"}\<close>; the text of the exception goes to the log
  only, the table is as it was, and the session is empty after the rollback.
\<close>

theorem track_visit_write_failure:
  assumes "page_url_of req = Inr p"
    and "session_commit w
           (session_add (new_Visitor (remote_addr req) (map_of (headers req) ''User-Agent'')
                           (month (current_time w)) (year (current_time w))) st) = Inl e"
  shows "track_visit w req st =
           (Inr (Some (JDict [(''error'', JStr ''Could not track visit'')], 500)),
            st\<lparr>pending := [], logger := logger st @ [ErrTrackingVisit e]\<rparr>)"
  using assms
  by (simp add: track_visit_def Let_def session_rollback_def session_add_def)

text \<open>The database refusing the connection.\<close>

theorem track_visit_write_failure_witness:
  "page_url_of visit_req = Inr (JStr ''/home'') \<and>
   session_commit db_down_io
     (session_add (new_Visitor (remote_addr visit_req) (map_of (headers visit_req) ''User-Agent'')
                     (month (current_time db_down_io)) (year (current_time db_down_io))) ex_state)
     = Inl ''connection refused'' \<and>
   track_visit db_down_io visit_req ex_state =
     (Inr (Some (JDict [(''error'', JStr ''Could not track visit'')], 500)),
      ex_state\<lparr>pending := [],
                logger := logger ex_state @ [ErrTrackingVisit ''connection refused'']\<rparr>)"
proof -
  have p: "page_url_of visit_req = Inr (JStr ''/home'')"
    by (simp add: page_url_of_def request_json_def dict_get_def visit_req_def)
  have f: "session_commit db_down_io
     (session_add (new_Visitor (remote_addr visit_req) (map_of (headers visit_req) ''User-Agent'')
                     (month (current_time db_down_io)) (year (current_time db_down_io))) ex_state)
     = Inl ''connection refused''"
    by (simp add: session_commit_def db_down_io_def)
  show ?thesis using p f track_visit_write_failure[OF p f] by simp
qed

text \<open>
  C7. A \<open>month\<close> parameter that \<open>int\<close> accepts and that lies outside 1..12 reaches the query
  and the response as it is. When it and the year are integers the driver takes and the
  database answers, no row matches, every row of a state the application has reached
  having its month within 1..12, and the response reports 2.
\<close>

theorem monthly_visitors_month_out_of_range:
  assumes "reachable st"
    and "map_of (args req) ''month'' = Some s" and "py_int s = Some m"
    and "m < 1 \<or> 12 < m"
    and "sqlite_int m"
    and "sqlite_int (args_get (args req) ''year'' (year (current_time w)) py_int)"
    and "db_fault w = None"
  shows "fst (get_monthly_visitors py_int w req st) =
           Inr (Some (JDict
             [(''month'', JInt m),
              (''year'', JInt (args_get (args req) ''year'' (year (current_time w)) py_int)),
              (''unique_visitors'', JInt 2)], 200))"
proof -
  have am: "args_get (args req) ''month'' (month (current_time w)) py_int = m"
    using assms(2,3) by (simp add: args_get_def)
  have "list_all (\<lambda>v. visit_month v \<noteq> m) (rows st)"
    using reachable_months_ok[OF assms(1)] assms(4)
    by (auto simp: months_ok_def list_all_iff)
  then have "count_distinct_ip (rows st) m y = 0" for y
    by (rule count_distinct_ip_none)
  then show ?thesis
    using get_monthly_visitors_ok[of w req py_int st]
          query_fault_none[OF assms(7) assms(5) assms(6)]
    by (simp add: am)
qed

text \<open>Month 13 asked of the database that holds one visit.\<close>

theorem monthly_visitors_month_out_of_range_witness:
  "reachable one_visit_state \<and> rows one_visit_state \<noteq> [] \<and>
   map_of (args month13_req) ''month'' = Some ''13'' \<and> decimal_int ''13'' = Some 13 \<and>
   ((13::int) < 1 \<or> 12 < (13::int)) \<and> sqlite_int 13 \<and> sqlite_int 2024 \<and>
   db_fault ok_io = None \<and>
   fst (get_monthly_visitors decimal_int ok_io month13_req one_visit_state) =
     Inr (Some (JDict [(''month'', JInt 13), (''year'', JInt 2024),
                       (''unique_visitors'', JInt 2)], 200))"
proof -
  have r: "reachable one_visit_state" by (rule reachable_one_visit)
  have n: "rows one_visit_state \<noteq> []"
    by (simp add: one_visit_state_def run_defs ex_defs)
  have a: "map_of (args month13_req) ''month'' = Some ''13''" by (simp add: ex_defs)
  have i: "decimal_int ''13'' = Some 13" by (simp add: decimal_int_def digit_val_def)
  have o: "(13::int) < 1 \<or> 12 < (13::int)" by simp
  have q: "sqlite_int 13" by (simp add: sqlite_int_def)
  have y: "args_get (args month13_req) ''year'' (year (current_time ok_io)) decimal_int = 2024"
    by (simp add: args_get_def ex_defs)
  have p: "sqlite_int (args_get (args month13_req) ''year'' (year (current_time ok_io)) decimal_int)"
    unfolding y by (simp add: sqlite_int_def)
  have d: "db_fault ok_io = None" by (simp add: ex_defs)
  show ?thesis
    using r n a i o q p d
      monthly_visitors_month_out_of_range[where py_int = decimal_int, OF r a i o q p d]
    unfolding y by simp
qed

text \<open>
  Month 2 to the power 63 is outside 1..12 and \<open>int\<close> accepts it; asked of the same
  database, with nothing else failing, the driver refuses the parameter and the response
  is the 500 document, not a count of 2.
\<close>

theorem monthly_visitors_huge_month_counterexample:
  "reachable one_visit_state \<and>
   map_of (args huge_month_req) ''month'' = Some ''9223372036854775808'' \<and>
   decimal_int ''9223372036854775808'' = Some 9223372036854775808 \<and>
   (12::int) < 9223372036854775808 \<and> db_fault ok_io = None \<and>
   fst (get_monthly_visitors decimal_int ok_io huge_month_req one_visit_state) =
     Inr (Some (JDict [(''error'', JStr ''Could not retrieve visitor count'')], 500)) \<and>
   fst (get_monthly_visitors decimal_int ok_io huge_month_req one_visit_state) \<noteq>
     Inr (Some (JDict [(''month'', JInt 9223372036854775808), (''year'', JInt 2024),
                       (''unique_visitors'', JInt 2)], 200))"
proof -
  have i: "decimal_int ''9223372036854775808'' = Some 9223372036854775808"
    by (simp add: decimal_int_def digit_val_def)
  have a: "map_of (args huge_month_req) ''month'' = Some ''9223372036854775808''"
    by (simp add: ex_defs)
  have m: "args_get (args huge_month_req) ''month'' (month (current_time ok_io)) decimal_int
             = 9223372036854775808"
    by (simp add: args_get_def a i)
  have f: "query_fault ok_io
             (args_get (args huge_month_req) ''month'' (month (current_time ok_io)) decimal_int)
             (args_get (args huge_month_req) ''year'' (year (current_time ok_io)) decimal_int)
           = Some ''Python int too large to convert to SQLite INTEGER''"
    unfolding m by (simp add: query_fault_def sqlite_int_def ex_defs)
  have e: "fst (get_monthly_visitors decimal_int ok_io huge_month_req one_visit_state) =
     Inr (Some (JDict [(''error'', JStr ''Could not retrieve visitor count'')], 500))"
    by (simp add: get_monthly_visitors_fails[OF f])
  show ?thesis
    using reachable_one_visit a i e by (simp add: ex_defs)
qed

text \<open>
  C8. Whatever the route, the request and the outcome, the response that leaves the
  application has passed through \<open>after_request\<close> and carries the four CORS headers, the
  allowed origin being \<open>FRONTEND_URL\<close> or \<open>*\<close>.
\<close>

theorem every_response_has_cors_headers:
  "{(''Access-Control-Allow-Origin'', case FRONTEND_URL cfg of None \<Rightarrow> ''*'' | Some u \<Rightarrow> u),
    (''Access-Control-Allow-Headers'', ''Content-Type,Authorization''),
    (''Access-Control-Allow-Methods'', ''GET,PUT,POST,DELETE,OPTIONS''),
    (''Access-Control-Allow-Credentials'', ''true'')}
   \<subseteq> set (resp_headers (fst (wsgi_app py_int cfg w ep req st)))"
proof -
  obtain r where "fst (wsgi_app py_int cfg w ep req st) = after_request cfg r"
    using wsgi_app_after_request by blast
  then show ?thesis using after_request_headers[of cfg r] by simp
qed

text \<open>The 500 of a failed write carries them.\<close>

theorem every_response_has_cors_headers_witness:
  "{(''Access-Control-Allow-Origin'', ''*''),
    (''Access-Control-Allow-Headers'', ''Content-Type,Authorization''),
    (''Access-Control-Allow-Methods'', ''GET,PUT,POST,DELETE,OPTIONS''),
    (''Access-Control-Allow-Credentials'', ''true'')}
   \<subseteq> set (resp_headers (fst (wsgi_app decimal_int ex_cfg db_down_io TrackVisit visit_req ex_state)))
   \<and> status (fst (wsgi_app decimal_int ex_cfg db_down_io TrackVisit visit_req ex_state)) = 500"
proof -
  have f: "(case FRONTEND_URL ex_cfg of None \<Rightarrow> ''*'' | Some u \<Rightarrow> u) = ''*''"
    by (simp add: ex_cfg_def)
  have s: "status (fst (wsgi_app decimal_int ex_cfg db_down_io TrackVisit visit_req ex_state)) = 500"
    by (simp add: run_defs ex_defs)
  show ?thesis
    using s every_response_has_cors_headers[of ex_cfg decimal_int db_down_io TrackVisit visit_req ex_state]
    unfolding f by simp
qed

text \<open>
  C9. \<open>pageURL\<close> is read and dropped: two requests from the same address with the same
  \<open>User-Agent\<close>, whatever their bodies give for line 84, leave the same state and get the
  same response, and \<open>track_visit\<close> sends no mail. A row has the columns \<open>id\<close>,
  \<open>ip_address\<close>, \<open>user_agent\<close>, \<open>timestamp\<close>, \<open>visit_month\<close> and \<open>visit_year\<close> and no other.
\<close>

theorem track_visit_ignores_page_url:
  assumes "page_url_of req = Inr p" and "page_url_of req' = Inr p'"
    and "remote_addr req' = remote_addr req"
    and "map_of (headers req') ''User-Agent'' = map_of (headers req) ''User-Agent''"
  shows "track_visit w req' st = track_visit w req st \<and>
         outbox (snd (track_visit w req st)) = outbox st"
  using assms
  by (simp add: track_visit_def Let_def session_add_def session_commit_def session_rollback_def
           split: sum.splits option.splits)

text \<open>A body naming \<open>/home\<close> against no JSON body at all.\<close>

theorem track_visit_ignores_page_url_witness:
  "page_url_of visit_req = Inr (JStr ''/home'') \<and>
   page_url_of (visit_req\<lparr>is_json := False, json_body := None\<rparr>) = Inr JNull \<and>
   track_visit ok_io (visit_req\<lparr>is_json := False, json_body := None\<rparr>) ex_state =
     track_visit ok_io visit_req ex_state \<and>
   outbox (snd (track_visit ok_io visit_req ex_state)) = outbox ex_state"
proof -
  have p: "page_url_of visit_req = Inr (JStr ''/home'')"
    by (simp add: page_url_of_def request_json_def dict_get_def visit_req_def)
  have q: "page_url_of (visit_req\<lparr>is_json := False, json_body := None\<rparr>) = Inr JNull"
    by (simp add: page_url_of_def)
  show ?thesis
    using p q track_visit_ignores_page_url[OF p q, of ok_io ex_state] by simp
qed



end
